theory Spec2Isabelle
  imports Complex_Main "HOL-Library.Multiset" "HOL-Library.Char_ord" "HOL-Library.List_Lexorder"
begin

section \<open>JavaScript values and strings\<close>

text \<open>
  A JavaScript string is modelled as a \<^typ>\<open>string\<close>; a character stands for one code
  unit. The value that \<open>JSON.parse\<close> returns is a \<open>json\<close>; the number it carries is
  the value of the double, of which the program only ever tests whether it is zero. The
  pairs of a \<open>JObject\<close> are the own properties of the object, looked up by key.
\<close>

datatype json =
    JNull
  | JBool bool
  | JNumber rat
  | JString string
  | JArray "json list"
  | JObject "(string \<times> json) list"

text \<open>
  Reading a property \<open>v.k\<close> of a value other than \<open>null\<close>, for a key \<open>k\<close> that no
  prototype defines (the program reads \<open>transcript\<close>, \<open>summary\<close>, \<open>actionItems\<close>,
  \<open>speaker\<close> and \<open>text\<close>): \<open>None\<close> is \<open>undefined\<close>.
\<close>

fun js_get :: "json \<Rightarrow> string \<Rightarrow> json option" where
  "js_get (JObject kvs) k = map_of kvs k"
| "js_get _ k = None"

text \<open>\<open>ToBoolean\<close>: what the operators \<open>!\<close>, \<open>&&\<close>, \<open>||\<close> and \<open>if\<close> test.\<close>

fun ToBoolean :: "json \<Rightarrow> bool" where
  "ToBoolean JNull = False"
| "ToBoolean (JBool b) = b"
| "ToBoolean (JNumber n) = (n \<noteq> 0)"
| "ToBoolean (JString s) = (s \<noteq> [])"
| "ToBoolean (JArray _) = True"
| "ToBoolean (JObject _) = True"

definition falsy :: "json option \<Rightarrow> bool" where
  "falsy v = (case v of None \<Rightarrow> True | Some j \<Rightarrow> \<not> ToBoolean j)"

text \<open>
  The shapes that \<open>types.ts\<close> declares: a \<open>SpeakerTurn\<close> has a string \<open>speaker\<close> and a
  string \<open>text\<close>, the \<open>transcript\<close> of an \<open>AnalysisResult\<close> is an array of them.
\<close>

fun is_string :: "json option \<Rightarrow> bool" where
  "is_string (Some (JString _)) = True"
| "is_string _ = False"

definition is_SpeakerTurn :: "json \<Rightarrow> bool" where
  "is_SpeakerTurn j = (is_string (js_get j ''speaker'') \<and> is_string (js_get j ''text''))"

fun is_transcript :: "json option \<Rightarrow> bool" where
  "is_transcript (Some (JArray ts)) = list_all is_SpeakerTurn ts"
| "is_transcript _ = False"

section \<open>The AI gateway: \<open>analyzeMeetingAudio\<close>\<close>

text \<open>
  The remote call either rejects or resolves with a response whose \<open>text\<close> is a string or
  \<open>undefined\<close>. \<open>JSON.parse\<close> is the platform's; it is a parameter, \<open>None\<close> where it
  throws.
\<close>

datatype reply = CallFailed | Response "string option"

datatype thrown = ApiFailure | EmptyResponse | SyntaxError | TypeError | MissingFields

fun tryBody :: "(string \<Rightarrow> json option) \<Rightarrow> reply \<Rightarrow> thrown + json" where
  "tryBody JSON_parse CallFailed = Inl ApiFailure"
| "tryBody JSON_parse (Response None) = Inl EmptyResponse"
| "tryBody JSON_parse (Response (Some responseText)) =
     (if responseText = [] then Inl EmptyResponse
      else case JSON_parse responseText of
        None \<Rightarrow> Inl SyntaxError
      | Some parsedResult \<Rightarrow>
          if parsedResult = JNull then Inl TypeError
          else if falsy (js_get parsedResult ''transcript'')
                \<or> falsy (js_get parsedResult ''summary'')
                \<or> falsy (js_get parsedResult ''actionItems'')
          then Inl MissingFields
          else Inr parsedResult)"

text \<open>The \<open>catch\<close> replaces whatever was thrown by one error with a fixed message.\<close>

definition analyzeMeetingAudio :: "(string \<Rightarrow> json option) \<Rightarrow> reply \<Rightarrow> string + json" where
  "analyzeMeetingAudio JSON_parse r =
     (case tryBody JSON_parse r of
        Inl e \<Rightarrow> Inl ''Failed to process audio with Gemini API.''
      | Inr parsedResult \<Rightarrow> Inr parsedResult)"

section \<open>The data model of \<open>types.ts\<close>\<close>

text \<open>
  Field names are those of the source; \<open>text\<close>, \<open>id\<close> and \<open>type\<close> carry a prime
  because Isabelle reserves them.
\<close>

record SpeakerTurn =
  speaker :: string
  text' :: string

record AnalysisResult =
  transcript :: "SpeakerTurn list"
  summary :: string
  actionItems :: string

datatype AppState = INITIAL | LOADING | SUCCESS | ERROR

record Meeting =
  id' :: string
  title :: string
  timestamp :: string
  analysis :: AnalysisResult

section \<open>String operations of the platform\<close>

definition NL :: string where
  "NL = [CHR 0x0A]"

definition DQ :: string where
  "DQ = [CHR 0x22]"

text \<open>\<open>Array.prototype.join\<close>.\<close>

fun join :: "string \<Rightarrow> string list \<Rightarrow> string" where
  "join sep [] = []"
| "join sep [x] = x"
| "join sep (x # y # ys) = x @ sep @ join sep (y # ys)"

text \<open>
  \<open>String.prototype.trim\<close> removes white space and line terminators at both ends; of
  the code units a character can stand for these are 9 to 13, 32 and 160.
\<close>

definition is_space :: "char \<Rightarrow> bool" where
  "is_space c = (of_char c \<in> {9, 10, 11, 12, 13, 32, 160 :: nat})"

definition trim :: "string \<Rightarrow> string" where
  "trim s = rev (dropWhile is_space (rev (dropWhile is_space s)))"

text \<open>
  \<open>name.replace(/\.[^/.]+$/, "")\<close>: the leftmost position where a dot is followed, up
  to the end of the string, by one or more characters that are neither a slash nor a dot;
  the string is cut there. Without a match the string is returned as it is.
\<close>

fun removeExtension :: "string \<Rightarrow> string" where
  "removeExtension [] = []"
| "removeExtension (c # cs) =
     (if c = CHR ''.'' \<and> cs \<noteq> [] \<and> list_all (\<lambda>d. d \<noteq> CHR ''/'' \<and> d \<noteq> CHR ''.'') cs
      then []
      else c # removeExtension cs)"

text \<open>\<open>[...new Set(xs)]\<close>: the distinct elements, each at its first occurrence.\<close>

fun dedup :: "'a list \<Rightarrow> 'a list" where
  "dedup [] = []"
| "dedup (x # xs) = x # dedup (filter (\<lambda>y. y \<noteq> x) xs)"

text \<open>
  \<open>Array.prototype.sort(comparefn)\<close> is stable; \<open>after a b\<close> says that
  \<open>comparefn(a, b)\<close> is positive. A comparator result of \<open>NaN\<close> counts as zero. For a
  comparator that is not a consistent order the standard leaves the result to the engine;
  the model then still inserts from the right.
\<close>

fun insertBy :: "('a \<Rightarrow> 'a \<Rightarrow> bool) \<Rightarrow> 'a \<Rightarrow> 'a list \<Rightarrow> 'a list" where
  "insertBy after x [] = [x]"
| "insertBy after x (y # ys) = (if after x y then y # insertBy after x ys else x # y # ys)"

definition sortBy :: "('a \<Rightarrow> 'a \<Rightarrow> bool) \<Rightarrow> 'a list \<Rightarrow> 'a list" where
  "sortBy after xs = foldr (insertBy after) xs []"

section \<open>The AI gateway: \<open>answerQuestionFromMeetings\<close>\<close>

text \<open>
  \<open>new Date(ts).getTime()\<close> and \<open>new Date(ts).toLocaleString()\<close> are the platform's and
  are parameters. \<open>getTime\<close> is \<open>None\<close> for a string that is no date (\<open>NaN\<close>);
  otherwise it is a whole number of milliseconds, and the difference of two of them has
  the sign of the exact difference.
\<close>

definition laterThan :: "(string \<Rightarrow> int option) \<Rightarrow> Meeting \<Rightarrow> Meeting \<Rightarrow> bool" where
  "laterThan getTime a b =
     (case (getTime (timestamp a), getTime (timestamp b)) of
        (Some ta, Some tb) \<Rightarrow> ta - tb > 0
      | _ \<Rightarrow> False)"

definition turnLine :: "SpeakerTurn \<Rightarrow> string" where
  "turnLine turn = speaker turn @ '': '' @ text' turn"

definition contextBlock :: "(string \<Rightarrow> string) \<Rightarrow> Meeting \<Rightarrow> string" where
  "contextBlock toLocaleString meeting =
     NL @ ''---'' @ NL
     @ ''START OF TRANSCRIPT FOR MEETING: '' @ DQ @ title meeting @ DQ
     @ '' (Date: '' @ toLocaleString (timestamp meeting) @ '')'' @ NL
     @ join NL (map turnLine (transcript (analysis meeting))) @ NL
     @ ''END OF TRANSCRIPT FOR MEETING: '' @ DQ @ title meeting @ DQ @ NL
     @ ''---'' @ NL
     @ ''    ''"

definition contextBlocks ::
  "(string \<Rightarrow> int option) \<Rightarrow> (string \<Rightarrow> string) \<Rightarrow> Meeting list \<Rightarrow> string list" where
  "contextBlocks getTime toLocaleString meetings =
     map (contextBlock toLocaleString) (sortBy (laterThan getTime) meetings)"

definition formattedContext ::
  "(string \<Rightarrow> int option) \<Rightarrow> (string \<Rightarrow> string) \<Rightarrow> Meeting list \<Rightarrow> string" where
  "formattedContext getTime toLocaleString meetings =
     join (NL @ NL) (contextBlocks getTime toLocaleString meetings)"

definition prompt :: "string \<Rightarrow> string \<Rightarrow> string" where
  "prompt context question =
     NL
     @ ''    You are an AI assistant specialized in analyzing meeting transcripts.'' @ NL
     @ ''    Your task is to answer the user's question based *exclusively* on the information contained within the provided meeting transcripts.'' @ NL
     @ ''    Do not use any external knowledge or make assumptions beyond what is written in the text.'' @ NL
     @ ''    If the answer cannot be found in the transcripts, you must state '' @ DQ
     @ ''The answer to this question cannot be found in the selected meetings.'' @ DQ @ NL
     @ NL
     @ ''    IMPORTANT RULE: The meetings are provided in chronological order. If different meetings contain conflicting information or decisions, you must prioritize the information from the most recent meeting. The latest agreement is the one that is currently valid.'' @ NL
     @ NL
     @ ''    Here are the transcripts:'' @ NL
     @ ''    '' @ context @ NL
     @ NL
     @ ''    Now, please answer the following question: '' @ DQ @ question @ DQ @ NL
     @ ''  ''"

text \<open>
  The remote call is a function of the composed prompt. Whatever is thrown is replaced by
  one error with a fixed message.
\<close>

definition answerQuestionFromMeetings ::
  "(string \<Rightarrow> int option) \<Rightarrow> (string \<Rightarrow> string) \<Rightarrow> (string \<Rightarrow> reply)
     \<Rightarrow> string \<Rightarrow> Meeting list \<Rightarrow> string + string" where
  "answerQuestionFromMeetings getTime toLocaleString generateContent question meetings =
     (case generateContent (prompt (formattedContext getTime toLocaleString meetings) question) of
        CallFailed \<Rightarrow> Inl ''Failed to get an answer from the AI.''
      | Response None \<Rightarrow> Inl ''Failed to get an answer from the AI.''
      | Response (Some responseText) \<Rightarrow>
          if responseText = [] then Inl ''Failed to get an answer from the AI.''
          else Inr responseText)"

section \<open>The application state of \<open>App.tsx\<close>\<close>

text \<open>
  One field for each \<open>useState\<close> cell that the handlers below read or write. \<open>None\<close>
  is \<open>null\<close>; for \<open>tempSpeakerName\<close>, which \<open>handleEditSpeaker\<close> fills from a map
  lookup, it is \<open>undefined\<close>. The speaker name map is a plain object; its entries
  are its own properties, and \<open>handleEditSpeaker\<close> is called for listed speakers, which
  all have an entry.
\<close>

record File =
  name :: string
  type' :: string

datatype Section = Summary | ActionItems

datatype View = AnalyzeView | QaView

record App =
  view :: View
  error :: "string option"
  audioFile :: "File option"
  appState :: AppState
  analysisResult :: "AnalysisResult option"
  speakerNameMap :: "string \<rightharpoonup> string"
  uniqueSpeakers :: "string list"
  editingSpeaker :: "string option"
  tempSpeakerName :: "string option"
  editingTranscript :: "(nat \<times> string) option"
  editingSection :: "Section option"
  tempSummary :: string
  tempActionItems :: string
  savedMeetings :: "Meeting list"
  selectedMeetingIds :: "string set"

definition initialState :: App where
  "initialState =
     \<lparr> view = AnalyzeView, error = None, audioFile = None, appState = INITIAL,
       analysisResult = None,
       speakerNameMap = Map.empty, uniqueSpeakers = [], editingSpeaker = None,
       tempSpeakerName = Some [], editingTranscript = None, editingSection = None,
       tempSummary = [], tempActionItems = [], savedMeetings = [],
       selectedMeetingIds = {} \<rparr>"



definition handleFileChange :: "File option \<Rightarrow> App \<Rightarrow> App" where
  "handleFileChange file s =
     (case file of None \<Rightarrow> s | Some f \<Rightarrow> s\<lparr>audioFile := Some f, error := None\<rparr>)"


subsection \<open>Analysis\<close>

text \<open>
  \<open>processAudio\<close> awaits the encoding of the file and \<open>analyzeMeetingAudio\<close>; the
  outcome of the two is the argument: the result, or the message of what was thrown.
\<close>

definition processAudio :: "string + AnalysisResult \<Rightarrow> App \<Rightarrow> App" where
  "processAudio outcome s =
     (case audioFile s of
        None \<Rightarrow> s\<lparr>error := Some ''Please select an audio file first.''\<rparr>
      | Some f \<Rightarrow>
          (case outcome of
             Inr result \<Rightarrow>
               (let speakers = sort (dedup (map speaker (transcript result)));
                    initialMap = foldl (\<lambda>acc sp. acc(sp \<mapsto> sp)) Map.empty speakers
                in s\<lparr>error := None, uniqueSpeakers := speakers, speakerNameMap := initialMap,
                      analysisResult := Some result, appState := SUCCESS\<rparr>)
           | Inl errorMessage \<Rightarrow>
               s\<lparr>analysisResult := None,
                 error := Some (''Failed to analyze audio. '' @ errorMessage),
                 appState := ERROR\<rparr>))"

definition handleResetAnalysis :: "App \<Rightarrow> App" where
  "handleResetAnalysis s =
     s\<lparr>audioFile := None, analysisResult := None, error := None, appState := INITIAL,
       speakerNameMap := Map.empty, uniqueSpeakers := [], editingSpeaker := None,
       tempSpeakerName := Some [], editingTranscript := None, editingSection := None,
       tempSummary := [], tempActionItems := []\<rparr>"

text \<open>
  \<open>speakerNameMap[id] || id\<close>. The map is a plain object: where it has no entry for
  \<open>id\<close>, the read finds the member of \<open>Object.prototype\<close> of that name if there is
  one. Such a member is a function or an object, true as a condition and not a string:
  the result is then \<open>None\<close>. Otherwise it is the mapped name unless that is missing
  or empty, and then \<open>id\<close>.
\<close>

definition objectPrototypeKeys :: "string list" where
  "objectPrototypeKeys =
     [''constructor'', ''hasOwnProperty'', ''isPrototypeOf'', ''propertyIsEnumerable'',
      ''toLocaleString'', ''toString'', ''valueOf'', ''__proto__'', ''__defineGetter__'',
      ''__defineSetter__'', ''__lookupGetter__'', ''__lookupSetter__'']"

definition displayName :: "(string \<rightharpoonup> string) \<Rightarrow> string \<Rightarrow> string option" where
  "displayName m speakerId =
     (case m speakerId of
        Some n \<Rightarrow> Some (if n = [] then speakerId else n)
      | None \<Rightarrow> if speakerId \<in> set objectPrototypeKeys then None else Some speakerId)"

definition finalTurn :: "(string \<rightharpoonup> string) \<Rightarrow> SpeakerTurn \<Rightarrow> SpeakerTurn option" where
  "finalTurn m turn = map_option (\<lambda>n. turn\<lparr>speaker := n\<rparr>) (displayName m (speaker turn))"

text \<open>
  \<open>crypto.randomUUID()\<close> and \<open>new Date().toISOString()\<close> are the platform's; their
  values are the arguments \<open>uuid\<close> and \<open>now\<close>. The result is \<open>None\<close> where a turn
  of the new meeting would carry a member of \<open>Object.prototype\<close> as its speaker: that
  meeting is not of the type \<open>Meeting\<close>.
\<close>

definition handleSaveMeeting :: "string \<Rightarrow> string \<Rightarrow> App \<Rightarrow> App option" where
  "handleSaveMeeting uuid now s =
     (case (analysisResult s, audioFile s) of
        (Some a, Some f) \<Rightarrow>
          (case those (map (finalTurn (speakerNameMap s)) (transcript a)) of
             None \<Rightarrow> None
           | Some finalTranscript \<Rightarrow>
               (let newMeeting =
                      \<lparr> id' = uuid, title = removeExtension (name f), timestamp = now,
                        analysis = a\<lparr>transcript := finalTranscript\<rparr> \<rparr>
                in Some (handleResetAnalysis (s\<lparr>savedMeetings := savedMeetings s @ [newMeeting]\<rparr>))))
      | _ \<Rightarrow> Some s)"

subsection \<open>Inline editors\<close>

definition handleEditSpeaker :: "string \<Rightarrow> App \<Rightarrow> App" where
  "handleEditSpeaker speakerId s =
     s\<lparr>editingSpeaker := Some speakerId, tempSpeakerName := speakerNameMap s speakerId\<rparr>"

definition setTempSpeakerName :: "string \<Rightarrow> App \<Rightarrow> App" where
  "setTempSpeakerName v s = s\<lparr>tempSpeakerName := Some v\<rparr>"

definition handleCancelSpeakerEdit :: "App \<Rightarrow> App" where
  "handleCancelSpeakerEdit s = s\<lparr>editingSpeaker := None, tempSpeakerName := Some []\<rparr>"

text \<open>
  \<open>editingSpeaker && tempSpeakerName.trim()\<close> tests both strings for truth: the speaker
  being edited must be neither \<open>null\<close> nor empty. Calling \<open>trim\<close> on \<open>undefined\<close>
  throws, and the handler then changes nothing.
\<close>

definition handleSaveSpeakerName :: "App \<Rightarrow> App" where
  "handleSaveSpeakerName s =
     (case editingSpeaker s of
        None \<Rightarrow> handleCancelSpeakerEdit s
      | Some speakerId \<Rightarrow>
          if speakerId = [] then handleCancelSpeakerEdit s
          else (case tempSpeakerName s of
                  None \<Rightarrow> s
                | Some t \<Rightarrow>
                    if trim t \<noteq> []
                    then handleCancelSpeakerEdit
                           (s\<lparr>speakerNameMap := (speakerNameMap s)(speakerId \<mapsto> trim t)\<rparr>)
                    else handleCancelSpeakerEdit s))"

definition handleEditTranscript :: "nat \<Rightarrow> string \<Rightarrow> App \<Rightarrow> App" where
  "handleEditTranscript index currentText s = s\<lparr>editingTranscript := Some (index, currentText)\<rparr>"

definition updatedTranscript :: "nat \<Rightarrow> string \<Rightarrow> SpeakerTurn list \<Rightarrow> SpeakerTurn list" where
  "updatedTranscript editIndex editText turns =
     map (\<lambda>(index, turn). if index = editIndex then turn\<lparr>text' := trim editText\<rparr> else turn)
       (enumerate 0 turns)"

definition handleSaveTranscript :: "App \<Rightarrow> App" where
  "handleSaveTranscript s =
     (case (editingTranscript s, analysisResult s) of
        (Some (editIndex, editText), Some a) \<Rightarrow>
          s\<lparr>analysisResult := Some (a\<lparr>transcript := updatedTranscript editIndex editText (transcript a)\<rparr>),
            editingTranscript := None\<rparr>
      | _ \<Rightarrow> s)"


definition handleEditSection :: "Section \<Rightarrow> App \<Rightarrow> App" where
  "handleEditSection section s =
     (case analysisResult s of
        None \<Rightarrow> s
      | Some a \<Rightarrow>
          (case section of
             Summary \<Rightarrow> s\<lparr>editingSection := Some section, tempSummary := summary a\<rparr>
           | ActionItems \<Rightarrow> s\<lparr>editingSection := Some section, tempActionItems := actionItems a\<rparr>))"

definition handleSaveSection :: "App \<Rightarrow> App" where
  "handleSaveSection s =
     (case (analysisResult s, editingSection s) of
        (Some a, Some Summary) \<Rightarrow>
          s\<lparr>analysisResult := Some (a\<lparr>summary := trim (tempSummary s)\<rparr>), editingSection := None\<rparr>
      | (Some a, Some ActionItems) \<Rightarrow>
          s\<lparr>analysisResult := Some (a\<lparr>actionItems := trim (tempActionItems s)\<rparr>),
            editingSection := None\<rparr>
      | _ \<Rightarrow> s)"




subsection \<open>Saved meetings and the selection for questions\<close>

definition handleToggleMeetingSelection :: "string \<Rightarrow> App \<Rightarrow> App" where
  "handleToggleMeetingSelection meetingId s =
     (if meetingId \<in> selectedMeetingIds s
      then s\<lparr>selectedMeetingIds := selectedMeetingIds s - {meetingId}\<rparr>
      else s\<lparr>selectedMeetingIds := insert meetingId (selectedMeetingIds s)\<rparr>)"

text \<open>\<open>confirmed\<close> is the answer of \<open>window.confirm\<close>.\<close>

definition handleDeleteMeeting :: "bool \<Rightarrow> string \<Rightarrow> App \<Rightarrow> App" where
  "handleDeleteMeeting confirmed meetingId s =
     (if confirmed
      then s\<lparr>savedMeetings := filter (\<lambda>m. id' m \<noteq> meetingId) (savedMeetings s),
             selectedMeetingIds := selectedMeetingIds s - {meetingId}\<rparr>
      else s)"

subsection \<open>JSON text\<close>

text \<open>
  \<open>JSON.stringify\<close> and \<open>JSON.parse\<close> are the platform's; they are written out here as
  ECMA-262 defines them, for the values that the application stores. \<open>JSON.stringify\<close>,
  called with one argument, writes no white space, writes the properties of an object in
  the order of their creation, and quotes a string with \<open>QuoteJSONString\<close>: the quotation
  mark, the backslash and the control characters are escaped, the latter by a backslash
  and one of the letters b, t, n, f, r or, for the others, by a backslash, the letter u,
  two zeros and two lower-case hexadecimal digits. A meeting has its properties in the order of the object literal of
  \<open>handleSaveMeeting\<close>, an analysis and a turn in the order of \<open>types.ts\<close>. The gateway
  above keeps \<open>JSON.parse\<close> as a parameter: what is shown of it holds for every parser.
\<close>

definition BS :: char where
  "BS = CHR 0x5C"

definition QUOTE :: char where
  "QUOTE = CHR 0x22"

definition hexDigit :: "nat \<Rightarrow> char" where
  "hexDigit d = ''0123456789abcdef'' ! d"

definition escapeChar :: "char \<Rightarrow> string" where
  "escapeChar c =
     (if c = QUOTE then [BS, QUOTE]
      else if c = BS then [BS, BS]
      else if c = CHR 0x08 then [BS, CHR ''b'']
      else if c = CHR 0x09 then [BS, CHR ''t'']
      else if c = CHR 0x0A then [BS, CHR ''n'']
      else if c = CHR 0x0C then [BS, CHR ''f'']
      else if c = CHR 0x0D then [BS, CHR ''r'']
      else if of_char c < (32 :: nat)
        then [BS, CHR ''u'', CHR ''0'', CHR ''0'', hexDigit (of_char c div 16), hexDigit (of_char c mod 16)]
      else [c])"

definition quoteJSONString :: "string \<Rightarrow> string" where
  "quoteJSONString s = QUOTE # concat (map escapeChar s) @ [QUOTE]"

definition memberText :: "string \<times> string \<Rightarrow> string" where
  "memberText m = quoteJSONString (fst m) @ '':'' @ snd m"

definition stringifyObject :: "(string \<times> string) list \<Rightarrow> string" where
  "stringifyObject members = ''{'' @ join '','' (map memberText members) @ ''}''"

definition stringifyArray :: "string list \<Rightarrow> string" where
  "stringifyArray elements = ''['' @ join '','' elements @ '']''"

definition stringifyTurn :: "SpeakerTurn \<Rightarrow> string" where
  "stringifyTurn turn =
     stringifyObject
       [(''speaker'', quoteJSONString (speaker turn)), (''text'', quoteJSONString (text' turn))]"

definition stringifyAnalysis :: "AnalysisResult \<Rightarrow> string" where
  "stringifyAnalysis a =
     stringifyObject
       [(''transcript'', stringifyArray (map stringifyTurn (transcript a))),
        (''summary'', quoteJSONString (summary a)),
        (''actionItems'', quoteJSONString (actionItems a))]"

definition stringifyMeeting :: "Meeting \<Rightarrow> string" where
  "stringifyMeeting m =
     stringifyObject
       [(''id'', quoteJSONString (id' m)), (''title'', quoteJSONString (title m)),
        (''timestamp'', quoteJSONString (timestamp m)),
        (''analysis'', stringifyAnalysis (analysis m))]"

definition stringifyMeetings :: "Meeting list \<Rightarrow> string" where
  "stringifyMeetings meetings = stringifyArray (map stringifyMeeting meetings)"


text \<open>
  \<open>JSON.parse\<close>: a string literal ends at the first unescaped quotation mark and has no
  raw control character; an escape is one of the eight single-character escapes or
  the letter u with four hexadecimal digits (a character beyond the 8-bit characters of this model
  is refused).
\<close>

definition hexValue :: "char \<Rightarrow> nat option" where
  "hexValue c =
     (let n = of_char c :: nat
      in if 48 \<le> n \<and> n \<le> 57 then Some (n - 48)
         else if 97 \<le> n \<and> n \<le> 102 then Some (n - 87)
         else if 65 \<le> n \<and> n \<le> 70 then Some (n - 55)
         else None)"

definition unescape :: "char \<Rightarrow> char option" where
  "unescape e =
     (if e = QUOTE then Some QUOTE
      else if e = BS then Some BS
      else if e = CHR ''/'' then Some (CHR ''/'')
      else if e = CHR ''b'' then Some (CHR 0x08)
      else if e = CHR ''f'' then Some (CHR 0x0C)
      else if e = CHR ''n'' then Some (CHR 0x0A)
      else if e = CHR ''r'' then Some (CHR 0x0D)
      else if e = CHR ''t'' then Some (CHR 0x09)
      else None)"

definition codeUnit :: "string \<Rightarrow> char option" where
  "codeUnit hs =
     (case map hexValue hs of
        [Some a, Some b, Some c, Some d] \<Rightarrow>
          (if a = 0 \<and> b = 0 then Some (char_of (c * 16 + d)) else None)
      | _ \<Rightarrow> None)"

fun parseChars :: "string \<Rightarrow> (string \<times> string) option" where
  "parseChars [] = None"
| "parseChars (c # cs) =
     (if c = QUOTE then Some ([], cs)
      else if c = BS then
        (if cs = [] then None
         else if hd cs = CHR ''u'' then
           (case codeUnit (take 4 (tl cs)) of
              None \<Rightarrow> None
            | Some x \<Rightarrow> map_option (apfst ((#) x)) (parseChars (drop 4 (tl cs))))
         else (case unescape (hd cs) of
                 None \<Rightarrow> None
               | Some x \<Rightarrow> map_option (apfst ((#) x)) (parseChars (tl cs))))
      else if of_char c < (32 :: nat) then None
      else map_option (apfst ((#) c)) (parseChars cs))"

text \<open>
  A number is an optional minus sign, digits without a leading zero, an optional
  fraction, an optional exponent; its value is kept exactly (the type \<open>Meeting\<close> has no
  number).
\<close>

definition isDigit :: "char \<Rightarrow> bool" where
  "isDigit c = (48 \<le> (of_char c :: nat) \<and> (of_char c :: nat) \<le> 57)"

definition digitsValue :: "string \<Rightarrow> nat" where
  "digitsValue ds = foldl (\<lambda>n c. 10 * n + (of_char c - 48)) 0 ds"

definition startsWith :: "string \<Rightarrow> string \<Rightarrow> bool" where
  "startsWith p s = (take (length p) s = p)"

definition parseNumber :: "string \<Rightarrow> (rat \<times> string) option" where
  "parseNumber s =
     (let negative = startsWith ''-'' s;
          s1 = (if negative then tl s else s);
          ints = takeWhile isDigit s1;
          s2 = dropWhile isDigit s1;
          fraction = startsWith ''.'' s2;
          fracs = (if fraction then takeWhile isDigit (tl s2) else []);
          s3 = (if fraction then dropWhile isDigit (tl s2) else s2);
          exponent = (startsWith ''e'' s3 \<or> startsWith ''E'' s3);
          s4 = (if exponent then tl s3 else s3);
          minus = (exponent \<and> startsWith ''-'' s4);
          s5 = (if exponent \<and> (startsWith ''-'' s4 \<or> startsWith ''+'' s4) then tl s4 else s4);
          exps = (if exponent then takeWhile isDigit s5 else []);
          s6 = (if exponent then dropWhile isDigit s5 else s3);
          mantissa = (of_nat (digitsValue ints) + of_nat (digitsValue fracs) / 10 ^ length fracs :: rat);
          scaled = (if minus then mantissa / 10 ^ digitsValue exps
                    else mantissa * 10 ^ digitsValue exps)
      in if ints = [] \<or> (length ints > 1 \<and> hd ints = CHR ''0'') \<or> (fraction \<and> fracs = [])
            \<or> (exponent \<and> exps = [])
         then None
         else Some (if negative then - scaled else scaled, s6))"

text \<open>
  White space is the space, the tabulator, the line feed and the carriage return. Of two
  members of an object with the same key the later value is kept, at the place of the
  first.
\<close>

definition isWhitespace :: "char \<Rightarrow> bool" where
  "isWhitespace c = (c = CHR '' '' \<or> c = CHR 0x09 \<or> c = CHR 0x0A \<or> c = CHR 0x0D)"

definition skip :: "string \<Rightarrow> string" where
  "skip s = dropWhile isWhitespace s"

fun setMember :: "string \<Rightarrow> json \<Rightarrow> (string \<times> json) list \<Rightarrow> (string \<times> json) list" where
  "setMember k v [] = [(k, v)]"
| "setMember k v ((k', v') # kvs) =
     (if k' = k then (k, v) # kvs else (k', v') # setMember k v kvs)"

text \<open>
  The parser of a value, of the rest of an array after the elements \<open>done\<close> and of the rest
  of an object after the members \<open>done\<close>; it returns the value and the rest of the text
  and is \<open>None\<close> where \<open>JSON.parse\<close> throws a \<open>SyntaxError\<close>. The text as a whole is one value
  between white space.
\<close>

datatype expecting = AValue | Elements "json list" | Members "(string \<times> json) list"

partial_function (option) parseJSONText :: "expecting \<times> string \<Rightarrow> (json \<times> string) option" where
  "parseJSONText x =
     (case fst x of
        AValue \<Rightarrow>
          (let s = snd x in
           if startsWith ''['' s then
             (if startsWith '']'' (skip (tl s)) then Some (JArray [], tl (skip (tl s)))
              else parseJSONText (Elements [], skip (tl s)))
           else if startsWith ''{'' s then
             (if startsWith ''}'' (skip (tl s)) then Some (JObject [], tl (skip (tl s)))
              else parseJSONText (Members [], skip (tl s)))
           else if startsWith [QUOTE] s then map_option (apfst JString) (parseChars (tl s))
           else if startsWith ''true'' s then Some (JBool True, drop 4 s)
           else if startsWith ''false'' s then Some (JBool False, drop 5 s)
           else if startsWith ''null'' s then Some (JNull, drop 4 s)
           else map_option (apfst JNumber) (parseNumber s))
      | Elements done \<Rightarrow>
          Option.bind (parseJSONText (AValue, snd x))
            (\<lambda>r. let elements = done @ [fst r]; s = skip (snd r) in
                  if startsWith '','' s then parseJSONText (Elements elements, skip (tl s))
                  else if startsWith '']'' s then Some (JArray elements, tl s)
                  else None)
      | Members done \<Rightarrow>
          (if startsWith [QUOTE] (snd x) then
             (case parseChars (tl (snd x)) of
                None \<Rightarrow> None
              | Some (k, s1) \<Rightarrow>
                  if startsWith '':'' (skip s1) then
                    Option.bind (parseJSONText (AValue, skip (tl (skip s1))))
                      (\<lambda>r. let members = setMember k (fst r) done; s = skip (snd r) in
                            if startsWith '','' s then parseJSONText (Members members, skip (tl s))
                            else if startsWith ''}'' s then Some (JObject members, tl s)
                            else None)
                  else None)
           else None))"

definition parseJSON :: "string \<Rightarrow> json option" where
  "parseJSON source =
     (case parseJSONText (AValue, skip source) of
        None \<Rightarrow> None
      | Some (v, rest) \<Rightarrow> if skip rest = [] then Some v else None)"

text \<open>
  The value read as the type that the state cell declares, \<open>Meeting[]\<close>: the objects have
  exactly the properties of the interfaces of \<open>types.ts\<close>, in any order, and the strings
  are strings.
\<close>

fun asString :: "json option \<Rightarrow> string option" where
  "asString (Some (JString s)) = Some s"
| "asString _ = None"

definition hasKeys :: "string list \<Rightarrow> (string \<times> json) list \<Rightarrow> bool" where
  "hasKeys ks members = (distinct (map fst members) \<and> set (map fst members) = set ks)"

fun asTurn :: "json \<Rightarrow> SpeakerTurn option" where
  "asTurn (JObject members) =
     (if hasKeys [''speaker'', ''text''] members then
        (case (asString (map_of members ''speaker''), asString (map_of members ''text'')) of
           (Some s, Some t) \<Rightarrow> Some \<lparr> speaker = s, text' = t \<rparr>
         | _ \<Rightarrow> None)
      else None)"
| "asTurn _ = None"

fun asTurns :: "json option \<Rightarrow> SpeakerTurn list option" where
  "asTurns (Some (JArray elements)) = those (map asTurn elements)"
| "asTurns _ = None"

fun asAnalysis :: "json option \<Rightarrow> AnalysisResult option" where
  "asAnalysis (Some (JObject members)) =
     (if hasKeys [''transcript'', ''summary'', ''actionItems''] members then
        (case (asTurns (map_of members ''transcript''), asString (map_of members ''summary''),
               asString (map_of members ''actionItems'')) of
           (Some ts, Some s, Some a) \<Rightarrow> Some \<lparr> transcript = ts, summary = s, actionItems = a \<rparr>
         | _ \<Rightarrow> None)
      else None)"
| "asAnalysis _ = None"

fun asMeeting :: "json \<Rightarrow> Meeting option" where
  "asMeeting (JObject members) =
     (if hasKeys [''id'', ''title'', ''timestamp'', ''analysis''] members then
        (case (asString (map_of members ''id''), asString (map_of members ''title''),
               asString (map_of members ''timestamp''), asAnalysis (map_of members ''analysis'')) of
           (Some i, Some t, Some ts, Some a) \<Rightarrow>
             Some \<lparr> id' = i, title = t, timestamp = ts, analysis = a \<rparr>
         | _ \<Rightarrow> None)
      else None)"
| "asMeeting _ = None"

fun asMeetings :: "json \<Rightarrow> Meeting list option" where
  "asMeetings (JArray elements) = those (map asMeeting elements)"
| "asMeetings _ = None"

subsection \<open>Persistence\<close>

text \<open>
  \<open>localStorage\<close> maps keys to strings. The load effect is \<open>None\<close> where the value that
  \<open>JSON.parse\<close> returns is not of the type \<open>Meeting[]\<close> of the state cell; the state has an
  error where \<open>JSON.parse\<close> throws. \<open>writable\<close> says that \<open>setItem\<close> does not throw.
\<close>

type_synonym storage = "string \<rightharpoonup> string"

definition loadEffect :: "storage \<Rightarrow> App \<Rightarrow> App option" where
  "loadEffect localStorage s =
     (case localStorage ''savedMeetings'' of
        None \<Rightarrow> Some s
      | Some storedMeetings \<Rightarrow>
          if storedMeetings = [] then Some s
          else (case parseJSON storedMeetings of
                  Some v \<Rightarrow> map_option (\<lambda>meetings. s\<lparr>savedMeetings := meetings\<rparr>) (asMeetings v)
                | None \<Rightarrow> Some (s\<lparr>error := Some ''Could not load saved meetings.''\<rparr>)))"

definition persistEffect :: "bool \<Rightarrow> Meeting list \<Rightarrow> storage \<times> App \<Rightarrow> storage \<times> App" where
  "persistEffect writable rendered st =
     (if writable
      then ((fst st)(''savedMeetings'' \<mapsto> stringifyMeetings rendered), snd st)
      else (fst st,
            (snd st)\<lparr>error := Some ''Could not save meetings. Your changes might not persist.''\<rparr>))"

text \<open>
  Whether the load effect calls \<open>setSavedMeetings\<close>: the array it passes is a new one,
  so the component renders again and the persist effect runs again.
\<close>

definition loads :: "storage \<Rightarrow> bool" where
  "loads localStorage =
     (case localStorage ''savedMeetings'' of
        None \<Rightarrow> False
      | Some storedMeetings \<Rightarrow> storedMeetings \<noteq> [] \<and> parseJSON storedMeetings \<noteq> None)"

text \<open>
  Mounting the component: after the first render, which shows the initial state, the load
  effect and then the persist effect run, the latter on the meetings of that render; if
  the meetings were replaced, the persist effect runs once more after the next render.
\<close>

definition mount :: "bool \<Rightarrow> storage \<Rightarrow> (storage \<times> App) option" where
  "mount writable localStorage =
     (case loadEffect localStorage initialState of
        None \<Rightarrow> None
      | Some loaded \<Rightarrow>
          (let first = persistEffect writable (savedMeetings initialState) (localStorage, loaded)
           in Some (if loads localStorage
                    then persistEffect writable (savedMeetings (snd first)) first
                    else first)))"

section \<open>The user interface\<close>










section \<open>Notions used by the properties\<close>

text \<open>The time of a meeting whose timestamp is a date.\<close>

definition timeOf :: "(string \<Rightarrow> int option) \<Rightarrow> Meeting \<Rightarrow> int" where
  "timeOf getTime m = the (getTime (timestamp m))"




subsection \<open>Example data\<close>

text \<open>
  Two saved meetings, of 1 January and 1 March 2024, with the times that \<open>getTime\<close>
  gives for their timestamps.
\<close>

definition januaryMeeting :: Meeting where
  "januaryMeeting =
     \<lparr> id' = ''0b0e7a52'', title = ''Kickoff'', timestamp = ''2024-01-01T00:00:00.000Z'',
       analysis = \<lparr> transcript = [\<lparr> speaker = ''Ann'', text' = ''We ship in May.'' \<rparr>],
                    summary = ''* Ship in May'', actionItems = ''* Plan'' \<rparr> \<rparr>"

definition marchMeeting :: Meeting where
  "marchMeeting =
     \<lparr> id' = ''5c1d9f03'', title = ''Review'', timestamp = ''2024-03-01T00:00:00.000Z'',
       analysis = \<lparr> transcript = [\<lparr> speaker = ''Bob'', text' = ''We ship in June.'' \<rparr>],
                    summary = ''* Ship in June'', actionItems = ''* Replan'' \<rparr> \<rparr>"

definition exampleGetTime :: "string \<Rightarrow> int option" where
  "exampleGetTime =
     [''2024-01-01T00:00:00.000Z'' \<mapsto> 1704067200000,
      ''2024-03-01T00:00:00.000Z'' \<mapsto> 1709251200000]"

text \<open>
  An analysis session: a file is chosen and analysed; the model labels the speakers
  \<open>Speaker 1\<close> and \<open>Speaker 2\<close>.
\<close>

definition exampleFile :: File where
  "exampleFile = \<lparr> name = ''standup.2024-03-01.mp3'', type' = ''audio/mpeg'' \<rparr>"

definition exampleResult :: AnalysisResult where
  "exampleResult =
     \<lparr> transcript = [\<lparr> speaker = ''Speaker 2'', text' = ''Shall we start?'' \<rparr>,
                     \<lparr> speaker = ''Speaker 1'', text' = ''Yes.'' \<rparr>,
                     \<lparr> speaker = ''Speaker 2'', text' = ''Good.'' \<rparr>],
       summary = ''* Started'', actionItems = ''* None'' \<rparr>"

definition readyState :: App where
  "readyState = processAudio (Inr exampleResult) (handleFileChange (Some exampleFile) initialState)"

text \<open>
  A session in which the model gives one speaker no label at all; the user opens the
  editor of that speaker, types a name and confirms.
\<close>

definition unlabelledResult :: AnalysisResult where
  "unlabelledResult =
     \<lparr> transcript = [\<lparr> speaker = [], text' = ''Hello.'' \<rparr>,
                     \<lparr> speaker = ''Ann'', text' = ''Hi.'' \<rparr>],
       summary = ''* Greetings'', actionItems = ''* None'' \<rparr>"

definition unlabelledState :: App where
  "unlabelledState =
     processAudio (Inr unlabelledResult) (handleFileChange (Some exampleFile) initialState)"

text \<open>
  No speaker other than the one with the empty identifier has the empty string as its
  display name.
\<close>

definition noBlankNames :: "(string \<rightharpoonup> string) \<Rightarrow> bool" where
  "noBlankNames m = (\<forall>k. m k = Some [] \<longrightarrow> k = [])"





definition archiveState :: App where
  "archiveState =
     initialState\<lparr>savedMeetings := [januaryMeeting, marchMeeting],
                  selectedMeetingIds := {''0b0e7a52'', ''5c1d9f03''}\<rparr>"



section \<open>Response validation in \<open>analyzeMeetingAudio\<close>\<close>

lemma not_falsy_iff: "\<not> falsy v \<longleftrightarrow> (\<exists>j. v = Some j \<and> j \<noteq> JNull \<and> ToBoolean j)"
  by (cases v) (auto simp: falsy_def)

lemma truthy_field_not_null: "\<not> falsy (js_get payload k) \<Longrightarrow> payload \<noteq> JNull"
  by (cases payload) (auto simp: falsy_def)

lemma analyzeMeetingAudio_parsed:
  assumes "responseText \<noteq> []" and "JSON_parse responseText = Some payload"
  shows "analyzeMeetingAudio JSON_parse (Response (Some responseText))
         = (if \<not> falsy (js_get payload ''transcript'') \<and> \<not> falsy (js_get payload ''summary'')
               \<and> \<not> falsy (js_get payload ''actionItems'')
            then Inr payload
            else Inl ''Failed to process audio with Gemini API.'')"
  using assms truthy_field_not_null [of payload "''transcript''"]
  by (auto simp: analyzeMeetingAudio_def)

text \<open>
  C1, as amended. For a response text that parses to \<open>payload\<close>, \<open>analyzeMeetingAudio\<close>
  fails whenever the \<open>transcript\<close>, \<open>summary\<close> or \<open>actionItems\<close> field is absent or
  \<open>null\<close>. It succeeds exactly when each of the three fields is present, not \<open>null\<close>
  and true as a condition, and then returns the payload itself, unchanged; nothing else
  about the fields, such as the shape of the transcript, is examined.
\<close>

theorem analyzeMeetingAudio_validation:
  assumes "responseText \<noteq> []" and "JSON_parse responseText = Some payload"
  shows "((\<exists>k \<in> {''transcript'', ''summary'', ''actionItems''}.
             js_get payload k = None \<or> js_get payload k = Some JNull)
           \<longrightarrow> analyzeMeetingAudio JSON_parse (Response (Some responseText))
                 = Inl ''Failed to process audio with Gemini API.'')
       \<and> analyzeMeetingAudio JSON_parse (Response (Some responseText))
           = (if \<forall>k \<in> {''transcript'', ''summary'', ''actionItems''}.
                    \<exists>v. js_get payload k = Some v \<and> v \<noteq> JNull \<and> ToBoolean v
              then Inr payload
              else Inl ''Failed to process audio with Gemini API.'')"
  using assms
  by (auto simp: analyzeMeetingAudio_parsed [of responseText JSON_parse payload] not_falsy_iff)

theorem analyzeMeetingAudio_validation_witness:
  \<open>''{"summary":"* s"}'' \<noteq> []
   \<and> [''{"summary":"* s"}'' \<mapsto> JObject [(''summary'', JString ''* s'')]] ''{"summary":"* s"}''
       = Some (JObject [(''summary'', JString ''* s'')])
   \<and> js_get (JObject [(''summary'', JString ''* s'')]) ''transcript'' = None
   \<and> analyzeMeetingAudio [''{"summary":"* s"}'' \<mapsto> JObject [(''summary'', JString ''* s'')]]
         (Response (Some ''{"summary":"* s"}''))
       = Inl ''Failed to process audio with Gemini API.''\<close>
  using analyzeMeetingAudio_validation
    [of \<open>''{"summary":"* s"}''\<close>
        \<open>[''{"summary":"* s"}'' \<mapsto> JObject [(''summary'', JString ''* s'')]]\<close>
        \<open>JObject [(''summary'', JString ''* s'')]\<close>]
  by simp

text \<open>
  C1 as stated fails: a response whose \<open>transcript\<close> is a string, not a sequence of
  speaker and text pairs, is returned as a success.
\<close>

theorem analyzeMeetingAudio_accepts_malformed_transcript:
  \<open>\<not> is_transcript
        (js_get (JObject [(''transcript'', JString ''n/a''), (''summary'', JString ''* s''),
                          (''actionItems'', JString ''* a'')]) ''transcript'')
   \<and> analyzeMeetingAudio
         [''{"transcript":"n/a","summary":"* s","actionItems":"* a"}''
            \<mapsto> JObject [(''transcript'', JString ''n/a''), (''summary'', JString ''* s''),
                          (''actionItems'', JString ''* a'')]]
         (Response (Some ''{"transcript":"n/a","summary":"* s","actionItems":"* a"}''))
       = Inr (JObject [(''transcript'', JString ''n/a''), (''summary'', JString ''* s''),
                       (''actionItems'', JString ''* a'')])\<close>
  by (simp add: analyzeMeetingAudio_def falsy_def)

text \<open>
  C10. A response in which \<open>summary\<close> or \<open>actionItems\<close> is the empty string is
  rejected, also when all three fields are present and none is \<open>null\<close>: presence is
  tested by truth value.
\<close>

theorem analyzeMeetingAudio_rejects_empty_string:
  assumes "responseText \<noteq> []" and "JSON_parse responseText = Some payload"
    and "js_get payload ''summary'' = Some (JString [])
         \<or> js_get payload ''actionItems'' = Some (JString [])"
  shows "analyzeMeetingAudio JSON_parse (Response (Some responseText))
         = Inl ''Failed to process audio with Gemini API.''"
  using assms
  by (auto simp: analyzeMeetingAudio_parsed [of responseText JSON_parse payload] falsy_def)

theorem analyzeMeetingAudio_rejects_empty_string_witness:
  \<open>''{"transcript":[],"summary":"","actionItems":"* a"}'' \<noteq> []
   \<and> js_get (JObject [(''transcript'', JArray []), (''summary'', JString []),
                       (''actionItems'', JString ''* a'')]) ''transcript'' = Some (JArray [])
   \<and> js_get (JObject [(''transcript'', JArray []), (''summary'', JString []),
                       (''actionItems'', JString ''* a'')]) ''actionItems'' = Some (JString ''* a'')
   \<and> js_get (JObject [(''transcript'', JArray []), (''summary'', JString []),
                       (''actionItems'', JString ''* a'')]) ''summary'' = Some (JString [])
   \<and> analyzeMeetingAudio
         [''{"transcript":[],"summary":"","actionItems":"* a"}''
            \<mapsto> JObject [(''transcript'', JArray []), (''summary'', JString []),
                          (''actionItems'', JString ''* a'')]]
         (Response (Some ''{"transcript":[],"summary":"","actionItems":"* a"}''))
       = Inl ''Failed to process audio with Gemini API.''\<close>
  using analyzeMeetingAudio_rejects_empty_string
    [of \<open>''{"transcript":[],"summary":"","actionItems":"* a"}''\<close>
        \<open>[''{"transcript":[],"summary":"","actionItems":"* a"}''
            \<mapsto> JObject [(''transcript'', JArray []), (''summary'', JString []),
                          (''actionItems'', JString ''* a'')]]\<close>
        \<open>JObject [(''transcript'', JArray []), (''summary'', JString []),
                  (''actionItems'', JString ''* a'')]\<close>]
  by simp

section \<open>Chronological order of the context of a question\<close>

lemma laterThan_valid:
  "getTime (timestamp a) \<noteq> None \<Longrightarrow> getTime (timestamp b) \<noteq> None \<Longrightarrow>
   laterThan getTime a b \<longleftrightarrow> \<not> timeOf getTime a \<le> timeOf getTime b"
  by (auto simp: laterThan_def timeOf_def)

lemma insertBy_insort_key:
  "getTime (timestamp x) \<noteq> None \<Longrightarrow> \<forall>m \<in> set ms. getTime (timestamp m) \<noteq> None \<Longrightarrow>
   insertBy (laterThan getTime) x ms = insort_key (timeOf getTime) x ms"
  by (induction ms) (auto simp: laterThan_valid)

lemma sortBy_sort_key:
  "\<forall>m \<in> set ms. getTime (timestamp m) \<noteq> None \<Longrightarrow>
   sortBy (laterThan getTime) ms = sort_key (timeOf getTime) ms"
proof (induction ms)
  case Nil
  then show ?case by (simp add: sortBy_def)
next
  case (Cons m ms)
  then have "sortBy (laterThan getTime) ms = sort_key (timeOf getTime) ms" by simp
  moreover have "\<forall>m' \<in> set (sort_key (timeOf getTime) ms). getTime (timestamp m') \<noteq> None"
    using Cons.prems by simp
  ultimately show ?case
    using Cons.prems by (simp add: sortBy_def insertBy_insort_key)
qed

lemma sorted_times_unique:
  assumes "mset xs = mset ys"
  shows "map f (sort_key f xs) = map f (sort_key f ys)"
proof -
  have "mset (map f (sort_key f xs)) = mset (map f (sort_key f ys))"
    using assms by simp
  moreover have "sorted (map f (sort_key f xs))" "sorted (map f (sort_key f ys))"
    by simp_all
  ultimately show ?thesis
    by (metis properties_for_sort)
qed

text \<open>
  C2. When the timestamps of the meetings are dates, the context blocks that
  \<open>answerQuestionFromMeetings\<close> composes are the blocks of the given meetings, each once,
  in non-decreasing order of time; any reordering of the argument yields blocks in
  non-decreasing order with the same sequence of times.
\<close>

theorem contextBlocks_chronological:
  assumes "\<forall>m \<in> set meetings. getTime (timestamp m) \<noteq> None"
  shows "contextBlocks getTime toLocaleString meetings
           = map (contextBlock toLocaleString) (sortBy (laterThan getTime) meetings)
       \<and> formattedContext getTime toLocaleString meetings
           = join (NL @ NL) (map (contextBlock toLocaleString) (sortBy (laterThan getTime) meetings))
       \<and> mset (sortBy (laterThan getTime) meetings) = mset meetings
       \<and> sorted (map (timeOf getTime) (sortBy (laterThan getTime) meetings))
       \<and> (\<forall>reordered. mset reordered = mset meetings \<longrightarrow>
             sorted (map (timeOf getTime) (sortBy (laterThan getTime) reordered))
             \<and> map (timeOf getTime) (sortBy (laterThan getTime) reordered)
               = map (timeOf getTime) (sortBy (laterThan getTime) meetings))"
proof -
  have valid: "\<forall>m \<in> set reordered. getTime (timestamp m) \<noteq> None"
    if "mset reordered = mset meetings" for reordered
    using assms that by (metis set_mset_mset)
  have "\<forall>reordered. mset reordered = mset meetings \<longrightarrow>
             sorted (map (timeOf getTime) (sortBy (laterThan getTime) reordered))
             \<and> map (timeOf getTime) (sortBy (laterThan getTime) reordered)
               = map (timeOf getTime) (sortBy (laterThan getTime) meetings)"
    using valid assms by (auto simp: sortBy_sort_key intro: sorted_times_unique)
  then show ?thesis
    using assms by (simp add: contextBlocks_def formattedContext_def sortBy_sort_key)
qed

text \<open>
  The meetings of 1 March and 1 January 2024, supplied in this order, give the block of
  January before the block of March.
\<close>

theorem contextBlocks_chronological_witness:
  "exampleGetTime (timestamp marchMeeting) = Some 1709251200000
   \<and> exampleGetTime (timestamp januaryMeeting) = Some 1704067200000
   \<and> contextBlocks exampleGetTime (take 10) [marchMeeting, januaryMeeting]
       = [contextBlock (take 10) januaryMeeting, contextBlock (take 10) marchMeeting]
   \<and> map (timeOf exampleGetTime) (sortBy (laterThan exampleGetTime) [marchMeeting, januaryMeeting])
       = [1704067200000, 1709251200000]"
proof -
  have times: "exampleGetTime (timestamp marchMeeting) = Some 1709251200000"
    "exampleGetTime (timestamp januaryMeeting) = Some 1704067200000"
    by (simp_all add: exampleGetTime_def marchMeeting_def januaryMeeting_def)
  have valid: "\<forall>m \<in> set [marchMeeting, januaryMeeting]. exampleGetTime (timestamp m) \<noteq> None"
    using times by simp
  have order: "sortBy (laterThan exampleGetTime) [marchMeeting, januaryMeeting]
               = [januaryMeeting, marchMeeting]"
    using times by (simp add: sortBy_def laterThan_def)
  have "contextBlocks exampleGetTime (take 10) [marchMeeting, januaryMeeting]
        = map (contextBlock (take 10)) (sortBy (laterThan exampleGetTime) [marchMeeting, januaryMeeting])"
    using contextBlocks_chronological [OF valid, of "take 10"] by blast
  then show ?thesis
    using times by (simp add: order timeOf_def)
qed

section \<open>Speakers discovered by an analysis\<close>

lemma set_dedup: "set (dedup xs) = set xs"
  by (induction xs rule: dedup.induct) auto

lemma distinct_dedup: "distinct (dedup xs)"
  by (induction xs rule: dedup.induct) (auto simp: set_dedup)

lemma sort_dedup: "sort (dedup xs) = sorted_list_of_set (set xs)"
proof -
  have "mset (dedup xs) = mset (remdups xs)"
    by (simp add: set_eq_iff_mset_eq_distinct [symmetric] distinct_dedup set_dedup)
  then have "sort (dedup xs) = sort (remdups xs)"
    by (metis mset_sort properties_for_sort sorted_sort)
  then show ?thesis
    by (simp add: sorted_list_of_set_sort_remdups)
qed

lemma foldl_identity_map:
  "foldl (\<lambda>acc sp. acc(sp \<mapsto> sp)) m xs = (\<lambda>k. if k \<in> set xs then Some k else m k)"
  by (induction xs arbitrary: m) (auto simp: fun_eq_iff)

text \<open>
  C5. After a successful analysis of the chosen file, the list of discovered speakers is
  the set of the speakers of the transcript in ascending lexical order, each once, and
  the speaker name map sends each of them to itself and has no other entry.
\<close>

theorem processAudio_speakers:
  assumes "audioFile s = Some f"
  shows "uniqueSpeakers (processAudio (Inr result) s)
           = sorted_list_of_set (speaker ` set (transcript result))
       \<and> speakerNameMap (processAudio (Inr result) s)
           = (\<lambda>k. if k \<in> speaker ` set (transcript result) then Some k else None)
       \<and> analysisResult (processAudio (Inr result) s) = Some result
       \<and> appState (processAudio (Inr result) s) = SUCCESS"
  using assms
  by (simp add: processAudio_def Let_def sort_dedup foldl_identity_map)

theorem processAudio_speakers_witness:
  "audioFile (handleFileChange (Some exampleFile) initialState) = Some exampleFile
   \<and> uniqueSpeakers readyState = [''Speaker 1'', ''Speaker 2'']
   \<and> speakerNameMap readyState = [''Speaker 1'' \<mapsto> ''Speaker 1'', ''Speaker 2'' \<mapsto> ''Speaker 2'']"
proof -
  have chosen: "audioFile (handleFileChange (Some exampleFile) initialState) = Some exampleFile"
    by (simp add: handleFileChange_def)
  have speakers: "speaker ` set (transcript exampleResult) = {''Speaker 2'', ''Speaker 1''}"
    by (auto simp: exampleResult_def)
  show ?thesis
    using processAudio_speakers [OF chosen, of exampleResult] chosen
    unfolding readyState_def speakers
    by (auto simp: fun_eq_iff sorted_list_of_set_sort_remdups)
qed

section \<open>Committing the edit of a transcript turn\<close>

lemma updatedTranscript_length: "length (updatedTranscript i txt turns) = length turns"
  by (simp add: updatedTranscript_def)

lemma updatedTranscript_nth:
  "j < length turns \<Longrightarrow>
   updatedTranscript i txt turns ! j
     = (if j = i then (turns ! j)\<lparr>text' := trim txt\<rparr> else turns ! j)"
  by (simp add: updatedTranscript_def nth_enumerate_eq)

lemma updatedTranscript_speakers: "map speaker (updatedTranscript i txt turns) = map speaker turns"
  by (rule nth_equalityI) (simp_all add: updatedTranscript_length updatedTranscript_nth)

text \<open>
  C7. Committing the edit of turn \<open>i\<close> sets the text of that turn to the trimmed
  input, also when this is the empty string, and leaves the number of turns, their
  order, every speaker and every other turn as they were.
\<close>

theorem handleSaveTranscript_frame:
  assumes "analysisResult s = Some a" and "editingTranscript s = Some (i, txt)"
  shows "\<exists>a'. analysisResult (handleSaveTranscript s) = Some a'
           \<and> length (transcript a') = length (transcript a)
           \<and> map speaker (transcript a') = map speaker (transcript a)
           \<and> (\<forall>j < length (transcript a).
                 text' (transcript a' ! j) = (if j = i then trim txt else text' (transcript a ! j)))
           \<and> (\<forall>j < length (transcript a). j \<noteq> i \<longrightarrow> transcript a' ! j = transcript a ! j)
           \<and> summary a' = summary a \<and> actionItems a' = actionItems a
           \<and> editingTranscript (handleSaveTranscript s) = None
           \<and> speakerNameMap (handleSaveTranscript s) = speakerNameMap s"
  using assms
  by (simp add: handleSaveTranscript_def updatedTranscript_length updatedTranscript_nth
        updatedTranscript_speakers)

theorem handleSaveTranscript_frame_witness:
  "analysisResult (handleEditTranscript 1 ''   '' readyState) = Some exampleResult
   \<and> editingTranscript (handleEditTranscript 1 ''   '' readyState) = Some (1, ''   '')
   \<and> (\<exists>a'. analysisResult (handleSaveTranscript (handleEditTranscript 1 ''   '' readyState)) = Some a'
          \<and> length (transcript a') = 3
          \<and> map speaker (transcript a') = [''Speaker 2'', ''Speaker 1'', ''Speaker 2'']
          \<and> transcript a' ! 0 = \<lparr> speaker = ''Speaker 2'', text' = ''Shall we start?'' \<rparr>
          \<and> text' (transcript a' ! 1) = []
          \<and> transcript a' ! 2 = \<lparr> speaker = ''Speaker 2'', text' = ''Good.'' \<rparr>)"
proof -
  have ready: "analysisResult (handleEditTranscript 1 ''   '' readyState) = Some exampleResult"
    by (simp add: readyState_def handleEditTranscript_def processAudio_def handleFileChange_def Let_def)
  have editing: "editingTranscript (handleEditTranscript 1 ''   '' readyState) = Some (1, ''   '')"
    by (simp add: handleEditTranscript_def)
  have blank: "trim ''   '' = []"
    by (simp add: trim_def is_space_def)
  have turns: "length (transcript exampleResult) = 3"
    "map speaker (transcript exampleResult) = [''Speaker 2'', ''Speaker 1'', ''Speaker 2'']"
    "transcript exampleResult ! 0 = \<lparr> speaker = ''Speaker 2'', text' = ''Shall we start?'' \<rparr>"
    "transcript exampleResult ! 2 = \<lparr> speaker = ''Speaker 2'', text' = ''Good.'' \<rparr>"
    by (simp_all add: exampleResult_def)
  obtain a' where saved:
    "analysisResult (handleSaveTranscript (handleEditTranscript 1 ''   '' readyState)) = Some a'"
    "length (transcript a') = length (transcript exampleResult)"
    "map speaker (transcript a') = map speaker (transcript exampleResult)"
    and texts: "\<forall>j < length (transcript exampleResult).
          text' (transcript a' ! j) = (if j = 1 then trim ''   '' else text' (transcript exampleResult ! j))"
    and others: "\<forall>j < length (transcript exampleResult). j \<noteq> 1 \<longrightarrow> transcript a' ! j = transcript exampleResult ! j"
    using handleSaveTranscript_frame [OF ready editing] by blast
  have "text' (transcript a' ! 1) = []"
    using texts [rule_format, of 1] by (simp add: turns blank)
  moreover have "transcript a' ! 0 = transcript exampleResult ! 0"
    using others [rule_format, of 0] by (simp add: turns)
  moreover have "transcript a' ! 2 = transcript exampleResult ! 2"
    using others [rule_format, of 2] by (simp add: turns)
  ultimately show ?thesis
    using ready editing saved by (simp add: turns)
qed

section \<open>Committing the edit of a speaker name\<close>

text \<open>
  For a speaker whose identifier is not empty, a name with a non-empty trim replaces the
  entry of that speaker and nothing else; a name with an empty trim is dropped.
\<close>

lemma handleSaveSpeakerName_commit:
  assumes "editingSpeaker s = Some speakerId" and "speakerId \<noteq> []"
    and "tempSpeakerName s = Some t" and "trim t \<noteq> []"
  shows "speakerNameMap (handleSaveSpeakerName s) = (speakerNameMap s)(speakerId \<mapsto> trim t)
       \<and> analysisResult (handleSaveSpeakerName s) = analysisResult s
       \<and> uniqueSpeakers (handleSaveSpeakerName s) = uniqueSpeakers s
       \<and> editingSpeaker (handleSaveSpeakerName s) = None"
  using assms by (simp add: handleSaveSpeakerName_def handleCancelSpeakerEdit_def)

lemma handleSaveSpeakerName_discard:
  assumes "tempSpeakerName s = Some t" and "trim t = []"
  shows "speakerNameMap (handleSaveSpeakerName s) = speakerNameMap s
       \<and> analysisResult (handleSaveSpeakerName s) = analysisResult s
       \<and> editingSpeaker (handleSaveSpeakerName s) = None"
  using assms
  by (simp add: handleSaveSpeakerName_def handleCancelSpeakerEdit_def split: option.splits)

text \<open>
  C6 at a speaker whose identifier is the empty string: the editor of that speaker is
  open and holds the name \<open>Bob\<close>, yet committing leaves the entry of the speaker, and
  the whole map, as it was, and closes the editor.
\<close>

theorem handleSaveSpeakerName_empty_identifier:
  "uniqueSpeakers unlabelledState = [[], ''Ann'']
   \<and> editingSpeaker (setTempSpeakerName ''Bob'' (handleEditSpeaker [] unlabelledState)) = Some []
   \<and> tempSpeakerName (setTempSpeakerName ''Bob'' (handleEditSpeaker [] unlabelledState)) = Some ''Bob''
   \<and> trim ''Bob'' = ''Bob''
   \<and> speakerNameMap
        (handleSaveSpeakerName (setTempSpeakerName ''Bob'' (handleEditSpeaker [] unlabelledState))) []
       = Some []
   \<and> speakerNameMap
        (handleSaveSpeakerName (setTempSpeakerName ''Bob'' (handleEditSpeaker [] unlabelledState)))
       = speakerNameMap unlabelledState
   \<and> editingSpeaker
        (handleSaveSpeakerName (setTempSpeakerName ''Bob'' (handleEditSpeaker [] unlabelledState)))
       = None"
  by (simp add: unlabelledState_def unlabelledResult_def processAudio_def handleFileChange_def
        handleEditSpeaker_def setTempSpeakerName_def handleSaveSpeakerName_def
        handleCancelSpeakerEdit_def trim_def is_space_def Let_def)

section \<open>Saving a meeting\<close>


lemma removeExtension_no_dot: "CHR ''.'' \<notin> set n \<Longrightarrow> removeExtension n = n"
  by (induction n) auto



lemma displayName_inherited:
  "m k = None \<Longrightarrow> k \<in> set objectPrototypeKeys \<Longrightarrow> displayName m k = None"
  by (simp add: displayName_def)



lemma noBlankNames_processAudio:
  "audioFile s = Some f \<Longrightarrow> noBlankNames (speakerNameMap (processAudio (Inr result) s))"
  by (simp add: processAudio_def Let_def noBlankNames_def foldl_identity_map)

lemma noBlankNames_handleSaveSpeakerName:
  "noBlankNames (speakerNameMap s) \<Longrightarrow> noBlankNames (speakerNameMap (handleSaveSpeakerName s))"
  by (auto simp: handleSaveSpeakerName_def handleCancelSpeakerEdit_def noBlankNames_def
        split: option.splits)

lemma noBlankNames_handleResetAnalysis: "noBlankNames (speakerNameMap (handleResetAnalysis s))"
  by (simp add: handleResetAnalysis_def noBlankNames_def)





section \<open>Deleting a saved meeting\<close>

text \<open>
  The selection holds only ids of saved meetings: this is so at the start, and ticking
  the box of a listed meeting and saving a meeting keep it so.
\<close>

lemma selection_listed_initial:
  "selectedMeetingIds initialState \<subseteq> id' ` set (savedMeetings initialState)"
  by (simp add: initialState_def)

lemma selection_listed_toggle:
  assumes "selectedMeetingIds s \<subseteq> id' ` set (savedMeetings s)" and "m \<in> set (savedMeetings s)"
  shows "selectedMeetingIds (handleToggleMeetingSelection (id' m) s)
         \<subseteq> id' ` set (savedMeetings (handleToggleMeetingSelection (id' m) s))"
  using assms by (auto simp: handleToggleMeetingSelection_def)

lemma selection_listed_save:
  assumes "selectedMeetingIds s \<subseteq> id' ` set (savedMeetings s)"
    and "handleSaveMeeting uuid now s = Some s'"
  shows "selectedMeetingIds s' \<subseteq> id' ` set (savedMeetings s')"
  using assms
  by (auto simp: handleSaveMeeting_def handleResetAnalysis_def Let_def split: option.splits)

text \<open>
  C8. A confirmed deletion removes every meeting with the given id from the saved
  meetings and the id from the selection; the other meetings stay, in their order, and
  the other selected ids stay. The selection, which held only ids of saved meetings,
  holds only ids of saved meetings afterwards.
\<close>

theorem handleDeleteMeeting_no_dangling:
  assumes "selectedMeetingIds s \<subseteq> id' ` set (savedMeetings s)"
  shows "savedMeetings (handleDeleteMeeting True meetingId s)
           = filter (\<lambda>m. id' m \<noteq> meetingId) (savedMeetings s)
       \<and> meetingId \<notin> id' ` set (savedMeetings (handleDeleteMeeting True meetingId s))
       \<and> selectedMeetingIds (handleDeleteMeeting True meetingId s) = selectedMeetingIds s - {meetingId}
       \<and> selectedMeetingIds (handleDeleteMeeting True meetingId s)
           \<subseteq> id' ` set (savedMeetings (handleDeleteMeeting True meetingId s))
       \<and> (\<forall>m \<in> set (savedMeetings s).
             id' m \<noteq> meetingId \<longrightarrow> m \<in> set (savedMeetings (handleDeleteMeeting True meetingId s)))"
  using assms by (auto simp: handleDeleteMeeting_def)

theorem handleDeleteMeeting_no_dangling_witness:
  "selectedMeetingIds archiveState = {''0b0e7a52'', ''5c1d9f03''}
   \<and> map id' (savedMeetings archiveState) = [''0b0e7a52'', ''5c1d9f03'']
   \<and> savedMeetings (handleDeleteMeeting True ''0b0e7a52'' archiveState) = [marchMeeting]
   \<and> selectedMeetingIds (handleDeleteMeeting True ''0b0e7a52'' archiveState) = {''5c1d9f03''}
   \<and> selectedMeetingIds (handleDeleteMeeting True ''0b0e7a52'' archiveState)
       \<subseteq> id' ` set (savedMeetings (handleDeleteMeeting True ''0b0e7a52'' archiveState))"
proof -
  have sel: "selectedMeetingIds archiveState = {''0b0e7a52'', ''5c1d9f03''}"
    and ids: "map id' (savedMeetings archiveState) = [''0b0e7a52'', ''5c1d9f03'']"
    and saved: "savedMeetings archiveState = [januaryMeeting, marchMeeting]"
    by (simp_all add: archiveState_def januaryMeeting_def marchMeeting_def)
  have listed: "selectedMeetingIds archiveState \<subseteq> id' ` set (savedMeetings archiveState)"
    unfolding sel saved by (simp add: januaryMeeting_def marchMeeting_def)
  have kept: "filter (\<lambda>m. id' m \<noteq> ''0b0e7a52'') (savedMeetings archiveState) = [marchMeeting]"
    unfolding saved by (simp add: januaryMeeting_def marchMeeting_def)
  have rest: "selectedMeetingIds archiveState - {''0b0e7a52''} = {''5c1d9f03''}"
    unfolding sel by auto
  show ?thesis
    using handleDeleteMeeting_no_dangling [OF listed, of "''0b0e7a52''"] sel ids
    by (simp add: kept rest marchMeeting_def)
qed

section \<open>Loading and saving the meetings\<close>

subsection \<open>Strings\<close>





subsection \<open>Values\<close>

lemma startsWith_Cons [simp]: "startsWith [c] (d # s) = (d = c)"
  by (simp add: startsWith_def)

lemma startsWith_Nil [simp]: "startsWith (c # p) [] = False"
  by (simp add: startsWith_def)


lemma skip_Nil [simp]: "skip [] = []"
  by (simp add: skip_def)















subsection \<open>Meetings\<close>







subsection \<open>The effects\<close>


text \<open>A stored text that \<open>JSON.parse\<close> rejects is replaced by the text of the empty list.\<close>

lemma mount_unreadable:
  assumes "localStorage ''savedMeetings'' = Some blob" and "blob \<noteq> []"
    and "parseJSON blob = None"
  shows "mount True localStorage
         = Some (localStorage(''savedMeetings'' \<mapsto> ''[]''),
                 initialState\<lparr>error := Some ''Could not load saved meetings.''\<rparr>)"
  using assms
  by (simp add: mount_def loadEffect_def persistEffect_def loads_def Let_def initialState_def
        stringifyMeetings_def stringifyArray_def)



section \<open>The inline editors\<close>

































text \<open>
  Committing one editor and opening an editor of another kind touch different parts of
  the state: whether the blur is delivered before the click, as for a click with the
  mouse, or only when the new editor takes the focus, the state after both is the same.
\<close>

lemma commit_open_commute:
  "handleSaveSpeakerName (handleEditTranscript i t s) = handleEditTranscript i t (handleSaveSpeakerName s)"
  "handleSaveSpeakerName (handleEditSection sec s) = handleEditSection sec (handleSaveSpeakerName s)"
  "handleSaveTranscript (handleEditSpeaker k s) = handleEditSpeaker k (handleSaveTranscript s)"
  "handleSaveTranscript (handleEditSection sec s) = handleEditSection sec (handleSaveTranscript s)"
  "handleSaveSection (handleEditSpeaker k s) = handleEditSpeaker k (handleSaveSection s)"
  "handleSaveSection (handleEditTranscript i t s) = handleEditTranscript i t (handleSaveSection s)"
  by (auto simp: handleSaveSpeakerName_def handleCancelSpeakerEdit_def handleEditTranscript_def
        handleEditSection_def handleSaveTranscript_def handleEditSpeaker_def handleSaveSection_def
        split: option.splits Section.splits)





end
